theory Spec2Isabelle
  imports Main "HOL-Library.Word" "HOL-Library.Signed_Division"
begin

section \<open>Shared data: blocks, health, time\<close>

text \<open>
  River blocks as the controller sees them (\<open>ast.BlockStmt\<close>): a dotted name, a label,
  a body of statements and the byte offsets of the two curly braces. Statements that are
  not blocks (attributes) are kept as \<open>Attribute\<close>.
\<close>

datatype BlockStmt =
  BlockStmt (Name: "string list") (Label: string) (Body: "Stmt list")
            (LCurlyPos: int) (RCurlyPos: int)
and Stmt = Block BlockStmt | Attribute string

type_synonym ComponentID = "string list"

text \<open>\<open>vm.New(body)\<close> wraps a body into an evaluator; nothing is evaluated yet.\<close>

datatype Evaluator = Evaluator (evalBody: "Stmt list")

definition vm_New :: "Stmt list \<Rightarrow> Evaluator" where
  "vm_New body = Evaluator body"

datatype HealthType =
  HealthTypeUnknown | HealthTypeHealthy | HealthTypeUnhealthy | HealthTypeExited

text \<open>Wall-clock instants (\<open>time.Time\<close>) are natural numbers; \<open>time.Now()\<close> is an argument.\<close>

type_synonym time = nat

record component_Health =
  Health :: HealthType
  Message :: string
  UpdateTime :: time

datatype error = ErrUnevaluated | Errorf string

text \<open>A goroutine either panics or returns.\<close>

datatype 'a outcome = Panic string | Returns 'a

text \<open>Calls made on collaborators, in program order.\<close>

datatype event =
  LogError string
  | OnNodeWithDependantsUpdate string
  | ImportChildrenUpdateSignal

text \<open>\<open>strings.Join(parts, ".")\<close>.\<close>

fun strings_Join_dot :: "string list \<Rightarrow> string" where
  "strings_Join_dot [] = []"
| "strings_Join_dot [p] = p"
| "strings_Join_dot (p # q # ps) = p @ ''.'' @ strings_Join_dot (q # ps)"

text \<open>\<open>strings.Split(s, ".")\<close>: always at least one part.\<close>

fun strings_Split_dot :: "string \<Rightarrow> string list" where
  "strings_Split_dot [] = [[]]"
| "strings_Split_dot (c # cs) =
     (if c = CHR ''.'' then [] # strings_Split_dot cs
      else (case strings_Split_dot cs of
              [] \<Rightarrow> [[c]]
            | p # ps \<Rightarrow> (c # p) # ps))"

text \<open>
  Modelled from the spec: \<open>BlockComponentID\<close> and \<open>ComponentID.Equals\<close> are declared in the
  controller package outside the files at hand. The spec gives a block's identity as
  \<open>(name[, label])\<close>: the name parts, followed by the label when there is one. Two IDs
  are equal when they have the same parts in the same order.
\<close>

definition BlockComponentID :: "BlockStmt \<Rightarrow> ComponentID" where
  "BlockComponentID b = Name b @ (if Label b = [] then [] else [Label b])"

definition ComponentID_Equals :: "ComponentID \<Rightarrow> ComponentID \<Rightarrow> bool" where
  "ComponentID_Equals a b = (a = b)"

definition ComponentID_String :: "ComponentID \<Rightarrow> string" where
  "ComponentID_String cid = strings_Join_dot cid"

definition GetBlockName :: "BlockStmt \<Rightarrow> string" where
  "GetBlockName b = strings_Join_dot (Name b)"

text \<open>
  The part of \<open>ComponentGlobals\<close> the constructors read. \<open>path.Join\<close> is the standard
  library's and is passed in as a function.
\<close>

record ComponentGlobals =
  ControllerID :: string
  DataPath :: string

section \<open>Custom component node\<close>

text \<open>
  \<open>CustomComponentNode\<close>. The managed module component is a pointer: \<open>None\<close> is nil.
  Exports are values of an arbitrary type \<open>'e\<close> (Go's \<open>interface{}\<close>). The field \<open>args\<close> is
  never assigned by the code and is left out.
\<close>

datatype ModuleComponent = ModuleComponent (moduleID: string)

record 'e CustomComponentNode =
  id :: ComponentID
  globalID :: string
  label :: string
  componentName :: string
  importLabel :: string
  declareLabel :: string
  nodeID :: string
  lastUpdateTime :: time
  block :: BlockStmt
  eval :: Evaluator
  managed :: "ModuleComponent option"
  evalHealth :: component_Health
  runHealth :: component_Health
  exports :: 'e

definition ExtractImportAndDeclareLabels :: "string \<Rightarrow> string \<times> string" where
  "ExtractImportAndDeclareLabels cname =
     (let parts = strings_Split_dot cname in
      if length parts = 0 then ([], [])
      else if length parts > 1 then (parts ! 0, parts ! 1)
      else ([], parts ! 0))"

text \<open>
  \<open>NewCustomComponentNode\<close>: the managed component is not built, the exports are the
  zero value \<open>nil_exports\<close>, and the update time is the zero time.
\<close>

definition NewCustomComponentNode ::
  "(string \<Rightarrow> string \<Rightarrow> string) \<Rightarrow> time \<Rightarrow> 'e \<Rightarrow> ComponentGlobals \<Rightarrow> BlockStmt
     \<Rightarrow> 'e CustomComponentNode" where
  "NewCustomComponentNode path_Join now nil_exports globals b =
     (let cid = BlockComponentID b;
          nid = ComponentID_String cid;
          initHealth = \<lparr>Health = HealthTypeUnknown,
                        Message = ''node declare component created'',
                        UpdateTime = now\<rparr>;
          gid = (if ControllerID globals \<noteq> [] then path_Join (ControllerID globals) nid
                 else nid);
          cname = GetBlockName b;
          labels = ExtractImportAndDeclareLabels cname
      in \<lparr>id = cid, globalID = gid, label = Label b, componentName = cname,
          importLabel = fst labels, declareLabel = snd labels, nodeID = nid,
          lastUpdateTime = 0,
          block = b, eval = vm_New (Body b), managed = None,
          evalHealth = initHealth, runHealth = initHealth, exports = nil_exports\<rparr>)"

text \<open>
  \<open>UpdateBlock\<close>: panics when the block's component ID is not the node's, otherwise
  stores the block and a fresh evaluator for its body.
\<close>

definition UpdateBlock :: "'e CustomComponentNode \<Rightarrow> BlockStmt \<Rightarrow> 'e CustomComponentNode outcome" where
  "UpdateBlock cn b =
     (if \<not> ComponentID_Equals (BlockComponentID b) (id cn)
      then Panic ''UpdateBlock called with an River block with a different component ID''
      else Returns (cn\<lparr>block := b, eval := vm_New (Body b)\<rparr>))"

text \<open>
  The collaborators of \<open>evaluate\<close> are the River evaluator, the module component
  constructor, the lookup of the custom component's configuration and the managed
  component's loader. Each is represented by the answer it gives when it is called.
\<close>

record eval_responses =
  decodeErr :: "string option"
  buildRes :: "string + ModuleComponent"
  configErr :: "string option"
  loadErr :: "string option"

definition setEvalHealth ::
  "HealthType \<Rightarrow> string \<Rightarrow> time \<Rightarrow> 'e CustomComponentNode \<Rightarrow> 'e CustomComponentNode" where
  "setEvalHealth t msg now cn =
     cn\<lparr>evalHealth := \<lparr>Health = t, Message = msg, UpdateTime = now\<rparr>\<rparr>"

definition setRunHealth ::
  "HealthType \<Rightarrow> string \<Rightarrow> time \<Rightarrow> 'e CustomComponentNode \<Rightarrow> 'e CustomComponentNode" where
  "setRunHealth t msg now cn =
     cn\<lparr>runHealth := \<lparr>Health = t, Message = msg, UpdateTime = now\<rparr>\<rparr>"

text \<open>
  \<open>evaluate\<close>: decode the arguments, build the managed component when there is none yet,
  fetch the configuration, reload. The managed component is stored as soon as it is
  built, before the configuration is fetched.
\<close>

definition evaluate ::
  "eval_responses \<Rightarrow> 'e CustomComponentNode \<Rightarrow> 'e CustomComponentNode \<times> string option" where
  "evaluate r cn =
     (case decodeErr r of
        Some e \<Rightarrow> (cn, Some (''decoding River: '' @ e))
      | None \<Rightarrow>
          (case (if managed cn = None
                 then (case buildRes r of
                         Inl e \<Rightarrow> Inl e
                       | Inr m \<Rightarrow> Inr (cn\<lparr>managed := Some m\<rparr>))
                 else Inr cn) of
             Inl e \<Rightarrow> (cn, Some (''building custom component: '' @ e))
           | Inr cn1 \<Rightarrow>
               (case configErr r of
                  Some e \<Rightarrow> (cn1, Some (''retrieving custom component config: '' @ e))
                | None \<Rightarrow>
                    (case loadErr r of
                       Some e \<Rightarrow> (cn1, Some (''updating component: '' @ e))
                     | None \<Rightarrow> (cn1, None)))))"

definition Evaluate ::
  "eval_responses \<Rightarrow> time \<Rightarrow> 'e CustomComponentNode \<Rightarrow> 'e CustomComponentNode \<times> string option" where
  "Evaluate r now cn =
     (case evaluate r cn of
        (cn1, None) \<Rightarrow>
          (setEvalHealth HealthTypeHealthy ''component evaluated'' now cn1, None)
      | (cn1, Some e) \<Rightarrow>
          (setEvalHealth HealthTypeUnhealthy (''component evaluation failed: '' @ e) now cn1,
           Some e))"

text \<open>
  \<open>Run\<close> is split at the point where it blocks: \<open>Run\<close> below is the part up to the
  call of \<open>RunFlowController\<close>, which either returns \<open>ErrUnevaluated\<close> at once or leaves
  the node started; \<open>Run_exit\<close> is the part after the controller has returned.
\<close>

datatype 'n run_result = FailedFast error | Started 'n

definition Run :: "time \<Rightarrow> 'e CustomComponentNode \<Rightarrow> 'e CustomComponentNode run_result" where
  "Run now cn =
     (if managed cn = None then FailedFast ErrUnevaluated
      else Started (setRunHealth HealthTypeHealthy ''started custom component'' now cn))"

definition Run_exit ::
  "time \<Rightarrow> 'e CustomComponentNode \<Rightarrow> 'e CustomComponentNode \<times> error option" where
  "Run_exit now cn =
     (setRunHealth HealthTypeExited ''custom component shut down'' now cn, None)"

definition Exports :: "'e CustomComponentNode \<Rightarrow> 'e" where
  "Exports cn = exports cn"

definition LastUpdateTime :: "'e CustomComponentNode \<Rightarrow> time" where
  "LastUpdateTime cn = lastUpdateTime cn"

text \<open>
  \<open>setExports\<close>. \<open>reflect.DeepEqual\<close> is the standard library's and is passed in as
  \<open>DeepEqual\<close>. The result is the node and the calls made on the controller.
\<close>

definition setExports ::
  "('e \<Rightarrow> 'e \<Rightarrow> bool) \<Rightarrow> time \<Rightarrow> 'e \<Rightarrow> 'e CustomComponentNode
     \<Rightarrow> 'e CustomComponentNode \<times> event list" where
  "setExports DeepEqual now e cn =
     (let changed = \<not> DeepEqual (exports cn) e;
          cn1 = (if changed then cn\<lparr>exports := e\<rparr> else cn)
      in if changed
         then (cn1\<lparr>lastUpdateTime := now\<rparr>, [OnNodeWithDependantsUpdate (nodeID cn1)])
         else (cn1, []))"

section \<open>Import config node\<close>

datatype SourceType = File | Git | HTTP

text \<open>
  Modelled from the spec: \<open>importsource.GetSourceType\<close> and the block-name constants are
  outside the files at hand. The spec names the three import block kinds
  \<open>import.file\<close>, \<open>import.http\<close> and \<open>import.git\<close>.
\<close>

definition BlockImportFile :: string where "BlockImportFile = ''import.file''"
definition BlockImportGit :: string where "BlockImportGit = ''import.git''"

definition GetSourceType :: "string \<Rightarrow> SourceType" where
  "GetSourceType fullName =
     (if fullName = BlockImportFile then File
      else if fullName = BlockImportGit then Git
      else HTTP)"

text \<open>
  The import source held by a node: its kind, the ID and data path of its managed
  options and its evaluator.

  Modelled from the spec: \<open>importsource.NewImportSource\<close> is outside the files at hand. The
  spec describes a loader of three variants (file, http, git) chosen by the source type;
  the constructor of the git variant, \<open>NewImportGit\<close>, is at hand and returns a non-nil
  pointer on every input. \<open>NewImportSource\<close> is taken to return a non-nil source for each
  of the three kinds.
\<close>

datatype ImportSource =
  ImportSource (sourceType: SourceType) (optsID: string) (optsDataPath: string)
               (sourceEval: Evaluator)

definition NewImportSource :: "SourceType \<Rightarrow> string \<Rightarrow> string \<Rightarrow> Evaluator \<Rightarrow> ImportSource option" where
  "NewImportSource t oid dpath ev = Some (ImportSource t oid dpath ev)"

text \<open>\<open>NewDeclare(stmt, content)\<close> keeps the block and the text of its body.\<close>

datatype Declare = Declare (declareBlock: BlockStmt) (declareContent: string)

text \<open>
  A nested import node is represented by what \<open>NewImportConfigNode\<close> was applied to.
  The children are kept in the order they were added; a Go map has no order, and the
  only place the order shows is which child \<open>evaluateChildren\<close> reports first.
\<close>

datatype ChildNode = ChildNode (childBlock: BlockStmt) (childSourceType: SourceType)

record ImportConfigNode =
  icn_id :: ComponentID
  icn_label :: string
  icn_nodeID :: string
  icn_componentName :: string
  icn_globalID :: string
  icn_globals :: ComponentGlobals
  icn_block :: BlockStmt
  source :: "ImportSource option"
  importConfigNodesChildren :: "(string \<times> ChildNode) list"
  importChildrenRunning :: bool
  importedDeclares :: "string \<rightharpoonup> Declare"
  inContentUpdate :: bool
  icn_lastUpdateTime :: time
  icn_evalHealth :: component_Health
  icn_runHealth :: component_Health

text \<open>
  \<open>NewImportConfigNode\<close>. The two maps are left nil by the constructor; a nil map reads
  as an empty one. The source is created here, from the block alone.
\<close>

definition NewImportConfigNode ::
  "(string \<Rightarrow> string \<Rightarrow> string) \<Rightarrow> time \<Rightarrow> BlockStmt \<Rightarrow> ComponentGlobals \<Rightarrow> SourceType
     \<Rightarrow> ImportConfigNode" where
  "NewImportConfigNode path_Join now b globals st =
     (let cid = BlockComponentID b;
          nid = ComponentID_String cid;
          initHealth = \<lparr>Health = HealthTypeUnknown, Message = ''component created'',
                        UpdateTime = now\<rparr>;
          gid = (if ControllerID globals \<noteq> [] then path_Join (ControllerID globals) nid
                 else nid)
      in \<lparr>icn_id = cid, icn_label = Label b, icn_nodeID = ComponentID_String (BlockComponentID b),
          icn_componentName = GetBlockName b, icn_globalID = gid, icn_globals = globals,
          icn_block = b,
          source = NewImportSource st gid (path_Join (DataPath globals) gid) (vm_New (Body b)),
          importConfigNodesChildren = [], importChildrenRunning = False,
          importedDeclares = Map.empty, inContentUpdate = False, icn_lastUpdateTime = 0,
          icn_evalHealth = initHealth, icn_runHealth = initHealth\<rparr>)"

definition icn_setEvalHealth :: "HealthType \<Rightarrow> string \<Rightarrow> time \<Rightarrow> ImportConfigNode \<Rightarrow> ImportConfigNode" where
  "icn_setEvalHealth t msg now cn =
     cn\<lparr>icn_evalHealth := \<lparr>Health = t, Message = msg, UpdateTime = now\<rparr>\<rparr>"

definition icn_setRunHealth :: "HealthType \<Rightarrow> string \<Rightarrow> time \<Rightarrow> ImportConfigNode \<Rightarrow> ImportConfigNode" where
  "icn_setRunHealth t msg now cn =
     cn\<lparr>icn_runHealth := \<lparr>Health = t, Message = msg, UpdateTime = now\<rparr>\<rparr>"

text \<open>
  \<open>Evaluate\<close> hands the scope to the source; \<open>srcErr\<close> is the source's answer. A nil
  source is a nil dereference.
\<close>

definition icn_Evaluate ::
  "string option \<Rightarrow> time \<Rightarrow> ImportConfigNode \<Rightarrow> (ImportConfigNode \<times> string option) outcome" where
  "icn_Evaluate srcErr now cn =
     (case source cn of
        None \<Rightarrow> Panic ''nil pointer dereference''
      | Some _ \<Rightarrow>
          (case srcErr of
             None \<Rightarrow> Returns (icn_setEvalHealth HealthTypeHealthy ''component evaluated'' now cn, None)
           | Some e \<Rightarrow>
               Returns (icn_setEvalHealth HealthTypeUnhealthy
                          (''component evaluation failed: '' @ e) now cn, Some e)))"

text \<open>
  \<open>Run\<close> up to the point where it waits on \<open>errChan\<close>: the guard, the start of the
  children when there are any, the run health, the start of the source. The result
  carries whether \<open>runChildren\<close> was started.
\<close>

definition icn_Run :: "time \<Rightarrow> ImportConfigNode \<Rightarrow> (ImportConfigNode \<times> bool) run_result" where
  "icn_Run now cn =
     (let importChildren = length (importConfigNodesChildren cn) in
      if source cn = None then FailedFast ErrUnevaluated
      else Started (icn_setRunHealth HealthTypeHealthy ''started component'' now cn,
                    importChildren > 0))"

text \<open>\<open>Exports\<close>: this node has no exports; nil is \<open>None\<close>.\<close>

definition icn_Exports :: "ImportConfigNode \<Rightarrow> 'x option" where
  "icn_Exports cn = None"

subsection \<open>Content updates\<close>

text \<open>
  Go's slice expression \<open>s[lo:hi]\<close> on a string: it panics unless
  \<open>0 \<le> lo \<le> hi \<le> len(s)\<close>.
\<close>

definition go_slice :: "string \<Rightarrow> int \<Rightarrow> int \<Rightarrow> string option" where
  "go_slice s lo hi =
     (if 0 \<le> lo \<and> lo \<le> hi \<and> hi \<le> int (length s)
      then Some (take (nat (hi - lo)) (drop (nat lo) s))
      else None)"

text \<open>
  \<open>processDeclareBlock\<close>: a label that is already in the map is logged and the block is
  dropped; otherwise the declare is stored under its label.
\<close>

definition processDeclareBlock ::
  "BlockStmt \<Rightarrow> string \<Rightarrow> ImportConfigNode \<Rightarrow> (ImportConfigNode \<times> event list) outcome" where
  "processDeclareBlock stmt content cn =
     (if importedDeclares cn (Label stmt) \<noteq> None
      then Returns (cn, [LogError ''declare block redefined''])
      else (case go_slice content (LCurlyPos stmt + 1) (RCurlyPos stmt - 1) of
              None \<Rightarrow> Panic ''slice bounds out of range''
            | Some body \<Rightarrow>
                Returns (cn\<lparr>importedDeclares :=
                              (importedDeclares cn)(Label stmt \<mapsto> Declare stmt body)\<rparr>, [])))"

definition processImportBlock ::
  "BlockStmt \<Rightarrow> string \<Rightarrow> ImportConfigNode \<Rightarrow> ImportConfigNode \<times> event list" where
  "processImportBlock stmt fullName cn =
     (let st = GetSourceType fullName in
      if map_of (importConfigNodesChildren cn) (Label stmt) \<noteq> None
      then (cn, [LogError ''import block redefined''])
      else (cn\<lparr>importConfigNodesChildren :=
                  importConfigNodesChildren cn @ [(Label stmt, ChildNode stmt st)]\<rparr>, []))"











section \<open>Git import source\<close>

text \<open>
  \<open>vcs.GitRepoOptions\<close> and the component's \<open>Arguments\<close>. The auth configuration is a
  value of an arbitrary type \<open>'auth\<close>; \<open>reflect.DeepEqual\<close> on the options is equality of
  the three fields. Durations are nanosecond counts.
\<close>

record 'auth GitRepoOptions =
  Repository :: string
  Revision :: string
  Auth :: 'auth

record 'auth Arguments =
  arg_Repository :: string
  arg_Revision :: string
  arg_Path :: string
  arg_PullFrequency :: int
  arg_GitAuthConfig :: 'auth

text \<open>
  Errors of the \<open>vcs\<close> package: \<open>errors.As(err, &vcs.UpdateFailedError{})\<close> tells the two
  kinds apart.
\<close>

datatype git_error = UpdateFailedError string | OtherError string

fun git_error_string :: "git_error \<Rightarrow> string" where
  "git_error_string (UpdateFailedError m) = m"
| "git_error_string (OtherError m) = m"

text \<open>
  The \<open>vcs\<close> package is outside the files at hand and is passed in: \<open>NewGitRepo\<close> on a
  storage path and options, and \<open>Update\<close> and \<open>ReadFile\<close> on a repository handle.
\<close>

record ('auth, 'repo) vcs =
  NewGitRepo :: "string \<Rightarrow> 'auth GitRepoOptions \<Rightarrow> 'repo option \<times> git_error option"
  repo_Update :: "'repo \<Rightarrow> 'repo \<times> git_error option"
  repo_ReadFile :: "'repo \<Rightarrow> string \<Rightarrow> git_error + string"

text \<open>
  \<open>argsChanged\<close> is a channel of capacity one: the field says whether a token is pending.
\<close>

record ('auth, 'repo) ImportGit =
  opts_DataPath :: string
  repo :: "'repo option"
  repoOpts :: "'auth GitRepoOptions"
  args :: "'auth Arguments"
  lastContent :: string
  argsChanged :: bool
  health :: component_Health

datatype 'auth git_event =
  NewGitRepoCall string "'auth GitRepoOptions"
  | onContentChange string
  | GitLogError string

definition updateHealth ::
  "git_error option \<Rightarrow> time \<Rightarrow> ('auth, 'repo) ImportGit \<Rightarrow> ('auth, 'repo) ImportGit" where
  "updateHealth err now im =
     (case err of
        Some e \<Rightarrow> im\<lparr>health := \<lparr>Health = HealthTypeUnhealthy, Message = git_error_string e,
                                 UpdateTime = now\<rparr>\<rparr>
      | None \<Rightarrow> im\<lparr>health := \<lparr>Health = HealthTypeHealthy, Message = ''module updated'',
                               UpdateTime = now\<rparr>\<rparr>)"

text \<open>
  \<open>pollFile\<close>: bring the repository up to date, read the file, and hand the content on
  when it is not the last one seen. A nil repository is a nil dereference.
\<close>

definition pollFile ::
  "('auth, 'repo) vcs \<Rightarrow> 'auth Arguments \<Rightarrow> ('auth, 'repo) ImportGit
     \<Rightarrow> 'auth git_event list \<times> (('auth, 'repo) ImportGit \<times> git_error option) outcome" where
  "pollFile v a im =
     (case repo im of
        None \<Rightarrow> ([], Panic ''nil pointer dereference'')
      | Some r \<Rightarrow>
          (case repo_Update v r of
             (r1, Some e) \<Rightarrow> ([], Returns (im\<lparr>repo := Some r1\<rparr>, Some e))
           | (r1, None) \<Rightarrow>
               (case repo_ReadFile v r1 (arg_Path a) of
                  Inl e \<Rightarrow> ([], Returns (im\<lparr>repo := Some r1\<rparr>, Some e))
                | Inr content \<Rightarrow>
                    if lastContent im \<noteq> content
                    then ([onContentChange content],
                          Returns (im\<lparr>repo := Some r1, lastContent := content\<rparr>, None))
                    else ([], Returns (im\<lparr>repo := Some r1\<rparr>, None)))))"

text \<open>
  \<open>Update\<close>. The storage path is \<open>filepath.Join(DataPath, "repo")\<close>, with \<open>filepath.Join\<close>
  passed in. The deferred \<open>updateHealth(err)\<close> sees the named result: the error on the
  two early returns, nil at the end.
\<close>

definition repoPath :: "(string \<Rightarrow> string \<Rightarrow> string) \<Rightarrow> ('auth, 'repo) ImportGit \<Rightarrow> string" where
  "repoPath filepath_Join im = filepath_Join (opts_DataPath im) ''repo''"

definition repoOptions_of :: "'auth Arguments \<Rightarrow> 'auth GitRepoOptions" where
  "repoOptions_of a =
     \<lparr>Repository = arg_Repository a, Revision = arg_Revision a, Auth = arg_GitAuthConfig a\<rparr>"

definition Update_poll ::
  "('auth, 'repo) vcs \<Rightarrow> time \<Rightarrow> 'auth Arguments \<Rightarrow> ('auth, 'repo) ImportGit
     \<Rightarrow> 'auth git_event list \<times> (('auth, 'repo) ImportGit \<times> git_error option) outcome" where
  "Update_poll v now newArgs im =
     (case pollFile v newArgs im of
        (ev, Panic m) \<Rightarrow> (ev, Panic m)
      | (ev, Returns (im1, Some (OtherError m))) \<Rightarrow>
          (ev, Returns (updateHealth (Some (OtherError m)) now im1, Some (OtherError m)))
      | (ev, Returns (im1, Some (UpdateFailedError m))) \<Rightarrow>
          (ev @ [GitLogError ''failed to poll file from repository''],
           Returns (updateHealth None now (im1\<lparr>argsChanged := True, args := newArgs\<rparr>), None))
      | (ev, Returns (im1, None)) \<Rightarrow>
          (ev, Returns (updateHealth None now (im1\<lparr>argsChanged := True, args := newArgs\<rparr>), None)))"

definition Update ::
  "('auth, 'repo) vcs \<Rightarrow> (string \<Rightarrow> string \<Rightarrow> string) \<Rightarrow> time \<Rightarrow> 'auth Arguments
     \<Rightarrow> ('auth, 'repo) ImportGit
     \<Rightarrow> 'auth git_event list \<times> (('auth, 'repo) ImportGit \<times> git_error option) outcome" where
  "Update v filepath_Join now newArgs im =
     (let path = repoPath filepath_Join im;
          ro = repoOptions_of newArgs
      in if repo im = None \<or> ro \<noteq> repoOpts im
         then (case NewGitRepo v path ro of
                 (r, Some (OtherError m)) \<Rightarrow>
                   ([NewGitRepoCall path ro],
                    Returns (updateHealth (Some (OtherError m)) now im, Some (OtherError m)))
               | (r, Some (UpdateFailedError m)) \<Rightarrow>
                   (case Update_poll v now newArgs
                           ((updateHealth (Some (UpdateFailedError m)) now im)
                              \<lparr>repo := r, repoOpts := ro\<rparr>) of
                      (ev, res) \<Rightarrow>
                        (NewGitRepoCall path ro # GitLogError ''failed to update repository'' # ev,
                         res))
               | (r, None) \<Rightarrow>
                   (case Update_poll v now newArgs (im\<lparr>repo := r, repoOpts := ro\<rparr>) of
                      (ev, res) \<Rightarrow> (NewGitRepoCall path ro # ev, res)))
         else Update_poll v now newArgs im)"

text \<open>\<open>NewImportGit\<close>: no repository yet, zero options and arguments, zero health.\<close>

definition NewImportGit :: "string \<Rightarrow> 'auth \<Rightarrow> ('auth, 'repo) ImportGit" where
  "NewImportGit dataPath no_auth =
     \<lparr>opts_DataPath = dataPath, repo = None,
      repoOpts = \<lparr>Repository = [], Revision = [], Auth = no_auth\<rparr>,
      args = \<lparr>arg_Repository = [], arg_Revision = [], arg_Path = [], arg_PullFrequency = 0,
              arg_GitAuthConfig = no_auth\<rparr>,
      lastContent = [], argsChanged = False,
      health = \<lparr>Health = HealthTypeUnknown, Message = [], UpdateTime = 0\<rparr>\<rparr>"

text \<open>The storage paths handed to \<open>NewGitRepo\<close>, in call order.\<close>

fun clone_paths :: "'auth git_event list \<Rightarrow> string list" where
  "clone_paths [] = []"
| "clone_paths (NewGitRepoCall path ro # ev) = path # clone_paths ev"
| "clone_paths (onContentChange c # ev) = clone_paths ev"
| "clone_paths (GitLogError m # ev) = clone_paths ev"

section \<open>Queue writer\<close>

type_synonym uint64 = "64 word"
type_synonym int64 = "64 word"

text \<open>\<open>strings.Contains(s, substr)\<close>.\<close>

fun strings_HasPrefix :: "string \<Rightarrow> string \<Rightarrow> bool" where
  "strings_HasPrefix s [] = True"
| "strings_HasPrefix [] (c # cs) = False"
| "strings_HasPrefix (x # xs) (c # cs) = (x = c \<and> strings_HasPrefix xs cs)"

fun strings_Contains :: "string \<Rightarrow> string \<Rightarrow> bool" where
  "strings_Contains [] substr = (substr = [])"
| "strings_Contains (x # xs) substr =
     (strings_HasPrefix (x # xs) substr \<or> strings_Contains xs substr)"

text \<open>
  The value found under a key: one of the five batch types the writer's type switch
  knows, over a payload type \<open>'p\<close>.
\<close>

datatype 'p signal =
  Samples 'p | Metadata 'p | Exemplars 'p | FloatHistograms 'p | Histograms 'p

text \<open>
  The store (\<open>dbstore\<close>) and the queue manager (\<open>QueueManager\<close>) are outside the files at
  hand; their methods are passed in, over a store state \<open>'s\<close> and a remote state \<open>'r\<close>.
  \<open>GetBookmark\<close> gives the bookmark's key when one is found.
\<close>

record ('s, 'r, 'p) writer_env =
  GetBookmark :: "'s \<Rightarrow> string \<Rightarrow> uint64 option"
  GetOldestKey :: "'s \<Rightarrow> uint64"
  GetNextKey :: "'s \<Rightarrow> uint64 \<Rightarrow> uint64"
  GetSignal :: "'s \<Rightarrow> uint64 \<Rightarrow> 'p signal option"
  WriteBookmark :: "'s \<Rightarrow> string \<Rightarrow> uint64 \<Rightarrow> 's \<times> string option"
  to_Name :: "'r \<Rightarrow> string"
  to_Append :: "'r \<Rightarrow> 'p \<Rightarrow> 'r \<times> bool \<times> string option"
  to_AppendMetadata :: "'r \<Rightarrow> 'p \<Rightarrow> 'r \<times> bool"
  to_AppendExemplars :: "'r \<Rightarrow> 'p \<Rightarrow> 'r \<times> bool \<times> string option"
  to_AppendFloatHistograms :: "'r \<Rightarrow> 'p \<Rightarrow> 'r \<times> bool \<times> string option"
  to_AppendHistograms :: "'r \<Rightarrow> 'p \<Rightarrow> 'r \<times> bool \<times> string option"

record ('s, 'r) writer =
  parentId :: string
  currentKey :: uint64
  w_to :: 'r
  w_store :: 's
  bookmarkKey :: string

definition newWriter ::
  "('s, 'r, 'p) writer_env \<Rightarrow> string \<Rightarrow> 'r \<Rightarrow> 's \<Rightarrow> ('s, 'r) writer" where
  "newWriter env parent t st =
     (let name = ''metrics_write_to_'' @ to_Name env t @ ''_parent_'' @ parent;
          w = \<lparr>parentId = parent, currentKey = 0, w_to = t, w_store = st, bookmarkKey = name\<rparr>;
          w1 = (case GetBookmark env (w_store w) (bookmarkKey w) of
                  None \<Rightarrow> w\<lparr>currentKey := GetOldestKey env (w_store w)\<rparr>
                | Some k \<Rightarrow> w\<lparr>currentKey := k\<rparr>)
      in if currentKey w1 = 0 then w1\<lparr>currentKey := 1\<rparr> else w1)"

definition GetKey :: "('s, 'r) writer \<Rightarrow> uint64" where
  "GetKey w = currentKey w"

text \<open>\<open>incrementKey\<close> returns whether the key changed.\<close>

definition incrementKey ::
  "('s, 'r, 'p) writer_env \<Rightarrow> ('s, 'r) writer \<Rightarrow> ('s, 'r) writer \<times> bool" where
  "incrementKey env w =
     (let prev = currentKey w;
          w1 = w\<lparr>currentKey := GetNextKey env (w_store w) (currentKey w)\<rparr>
      in (w1, prev \<noteq> currentKey w1))"

text \<open>
  The variables that live across iterations of the loop in \<open>Start\<close>. \<open>err\<close> is not reset
  at the top of an iteration.
\<close>

record loop_vars =
  newKey :: bool
  success :: bool
  err :: "string option"

datatype writer_event =
  GetSignalCall uint64
  | WriteBookmarkCall string uint64
  | WriterLogError string
  | TimerWait int

definition Second :: int where "Second = 1000000000"
definition Millisecond :: int where "Millisecond = 1000000"

text \<open>
  The type switch: every case but the metadata one assigns both \<open>success\<close> and \<open>err\<close>;
  the metadata case assigns \<open>success\<close> only.
\<close>

fun submit ::
  "('s, 'r, 'p) writer_env \<Rightarrow> 'r \<Rightarrow> string option \<Rightarrow> 'p signal \<Rightarrow> 'r \<times> bool \<times> string option" where
  "submit env r e (Samples v) = to_Append env r v"
| "submit env r e (Metadata v) = (case to_AppendMetadata env r v of (r1, ok) \<Rightarrow> (r1, ok, e))"
| "submit env r e (Exemplars v) = to_AppendExemplars env r v"
| "submit env r e (FloatHistograms v) = to_AppendFloatHistograms env r v"
| "submit env r e (Histograms v) = to_AppendHistograms env r v"

text \<open>
  The classification of the error in scope after the type switch: \<open>recoverableError\<close>
  starts as true and is cleared when there is an error whose text contains the
  descriptor.
\<close>

definition recoverableError :: "string option \<Rightarrow> bool" where
  "recoverableError e =
     (case e of
        None \<Rightarrow> True
      | Some m \<Rightarrow> \<not> strings_Contains m ''the sample has been rejected'')"

text \<open>
  One iteration of the loop, up to and including the timer. The result is the writer,
  the loop variables and the calls made.
\<close>

definition loop_body ::
  "('s, 'r, 'p) writer_env \<Rightarrow> ('s, 'r) writer \<times> loop_vars
     \<Rightarrow> ('s, 'r) writer \<times> loop_vars \<times> writer_event list" where
  "loop_body env st =
     (let w = fst st; lv = snd st;
          (w1, lv1, rec1, ev1) =
            (if newKey lv \<or> \<not> success lv then
               (case GetSignal env (w_store w) (currentKey w) of
                  None \<Rightarrow> (w, lv, True, [GetSignalCall (currentKey w)])
                | Some val \<Rightarrow>
                    (case submit env (w_to w) (err lv) val of
                       (r1, ok, e) \<Rightarrow>
                         (let rec = recoverableError e;
                              evl = (if e \<noteq> None then [WriterLogError ''error sending samples''] else [])
                          in if ok \<or> \<not> rec then
                               (case WriteBookmark env (w_store w) (bookmarkKey w) (currentKey w) of
                                  (s1, werr) \<Rightarrow>
                                    (w\<lparr>w_to := r1, w_store := s1\<rparr>,
                                     lv\<lparr>success := ok, err := werr\<rparr>, rec,
                                     [GetSignalCall (currentKey w)] @ evl @
                                     [WriteBookmarkCall (bookmarkKey w) (currentKey w)] @
                                     (if werr \<noteq> None then [WriterLogError ''error writing bookmark'']
                                      else [])))
                             else
                               (w\<lparr>w_to := r1\<rparr>, lv\<lparr>success := ok, err := e\<rparr>, rec,
                                [GetSignalCall (currentKey w)] @ evl))))
             else (w, lv, True, []));
          (w2, nk2) = (if success lv1 \<or> \<not> rec1 then incrementKey env w1 else (w1, newKey lv1));
          timeOut = (if success lv1 \<and> nk2 then 10 * Millisecond else 1 * Second)
      in (w2, lv1\<lparr>newKey := nk2\<rparr>, ev1 @ [TimerWait timeOut]))"

text \<open>
  \<open>Start\<close> runs until the context is cancelled; \<open>n\<close> is the number of times the timer
  fires before that, so the loop body runs \<open>n + 1\<close> times.
\<close>

fun Start_loop ::
  "('s, 'r, 'p) writer_env \<Rightarrow> nat \<Rightarrow> ('s, 'r) writer \<times> loop_vars
     \<Rightarrow> ('s, 'r) writer \<times> loop_vars \<times> writer_event list" where
  "Start_loop env 0 st = loop_body env st"
| "Start_loop env (Suc n) st =
     (case loop_body env st of
        (w1, lv1, ev1) \<Rightarrow>
          (case Start_loop env n (w1, lv1) of
             (w2, lv2, ev2) \<Rightarrow> (w2, lv2, ev1 @ ev2)))"

definition Start ::
  "('s, 'r, 'p) writer_env \<Rightarrow> nat \<Rightarrow> ('s, 'r) writer
     \<Rightarrow> ('s, 'r) writer \<times> loop_vars \<times> writer_event list" where
  "Start env n w =
     (case incrementKey env w of
        (w1, nk) \<Rightarrow> Start_loop env n (w1, \<lparr>newKey = nk, success = True, err = None\<rparr>))"

section \<open>Appender\<close>

text \<open>
  The sample buffer (\<open>linear\<close>) and the on-disk queue are outside the files at hand; their
  operations are passed in, over a buffer \<open>'l\<close> and a queue \<open>'q\<close>. Labels are name and
  value pairs and a sample value is carried as its 64-bit pattern.
\<close>

type_synonym labels = "(string \<times> string) list"
type_synonym float64 = "64 word"

record ('l, 'q) appender_env =
  AddMetric :: "'l \<Rightarrow> labels \<Rightarrow> int64 \<Rightarrow> float64 \<Rightarrow> 'l"
  estimatedSize :: "'l \<Rightarrow> int"
  totalMetrics :: "'l \<Rightarrow> int"
  Reset :: "'l \<Rightarrow> 'l"
  Serialize :: "'l \<Rightarrow> 8 word list"
  AddCommited :: "'q \<Rightarrow> 8 word list \<Rightarrow> 'q \<times> string option"

text \<open>
  The appender with the parent's queue database. \<open>ttl\<close> is a \<open>time.Duration\<close>: a signed
  64-bit count of nanoseconds.
\<close>

record ('l, 'q) appender =
  ttl :: int64
  a_l :: 'l
  a_database :: 'q

text \<open>
  \<open>int64(d.Seconds())\<close>. \<open>Duration.Seconds\<close> is
  \<^verbatim>\<open>sec := d / Second; nsec := d % Second; return float64(sec) + float64(nsec)/1e9\<close>
  in IEEE double arithmetic, and the conversion back to \<open>int64\<close> truncates towards zero.

  A double is kept as a pair \<open>(m, e)\<close> standing for \<open>m * 2^e\<close>. \<open>float64_of_ratio n d\<close>
  is the double nearest to \<open>n / d\<close> (for \<open>d > 0\<close>), ties to the even mantissa, with a
  mantissa of 53 bits; that is the result of one correctly rounded operation whose exact
  result is \<open>n / d\<close>. Only the normal range is modelled: the values that occur here lie
  between \<open>10^-9\<close> and \<open>10^10\<close> in magnitude. The integers \<open>sec\<close>, \<open>nsec\<close> and \<open>10^9\<close>
  are below \<open>2^53\<close> and convert exactly.
\<close>

fun bit_length :: "nat \<Rightarrow> nat" where
  "bit_length n = (if n = 0 then 0 else Suc (bit_length (n div 2)))"

declare bit_length.simps [simp del]

definition float64_of_ratio :: "int \<Rightarrow> int \<Rightarrow> int \<times> int" where
  "float64_of_ratio n d =
     (if n = 0 then (0, 0)
      else
        (let a = \<bar>n\<bar>;
             k = int (bit_length (nat a)) - int (bit_length (nat d));
             fl = (if (if 0 \<le> k then d * 2 ^ nat k \<le> a else d \<le> a * 2 ^ nat (- k))
                   then k else k - 1);
             e = fl - 52;
             num = (if 0 \<le> e then a else a * 2 ^ nat (- e));
             den = (if 0 \<le> e then d * 2 ^ nat e else d);
             q = num div den;
             r = num mod den;
             m = (if 2 * r < den then q
                  else if den < 2 * r then q + 1
                  else if even q then q else q + 1)
         in (sgn n * m, e)))"

text \<open>
  \<open>Seconds\<close>: the quotient \<open>nsec / 10^9\<close> is rounded, then the sum with \<open>sec\<close> is
  rounded. Go's \<open>/\<close> and \<open>%\<close> on integers truncate towards zero.
\<close>

definition Duration_Seconds :: "int64 \<Rightarrow> int \<times> int" where
  "Duration_Seconds d =
     (let sec = sint d sdiv 1000000000;
          nsec = sint d smod 1000000000;
          frac = float64_of_ratio nsec 1000000000;
          m1 = fst frac; e1 = snd frac
      in if 0 \<le> e1 then float64_of_ratio (sec + m1 * 2 ^ nat e1) 1
         else float64_of_ratio (sec * 2 ^ nat (- e1) + m1) (2 ^ nat (- e1)))"

definition int64_of_float64 :: "int \<times> int \<Rightarrow> int64" where
  "int64_of_float64 f =
     (let m = fst f; e = snd f
      in if 0 \<le> e then word_of_int (m * 2 ^ nat e)
         else word_of_int (sgn m * (\<bar>m\<bar> div 2 ^ nat (- e))))"

definition Duration_Seconds_int64 :: "int64 \<Rightarrow> int64" where
  "Duration_Seconds_int64 d = int64_of_float64 (Duration_Seconds d)"

text \<open>\<open>Queue.commit\<close>: nothing is written when the buffer holds no metrics.\<close>

definition commit :: "('l, 'q) appender_env \<Rightarrow> ('l, 'q) appender \<Rightarrow> ('l, 'q) appender" where
  "commit env a =
     (if totalMetrics env (a_l a) = 0 then a
      else a\<lparr>a_database := fst (AddCommited env (a_database a) (Serialize env (a_l a)))\<rparr>)"

text \<open>
  \<open>Append\<close>. \<open>now\<close> is \<open>time.Now().UnixMilli()\<close>. The result is the appender, the returned
  series reference and the returned error.
\<close>

definition Append ::
  "('l, 'q) appender_env \<Rightarrow> int64 \<Rightarrow> uint64 \<Rightarrow> labels \<Rightarrow> int64 \<Rightarrow> float64 \<Rightarrow> ('l, 'q) appender
     \<Rightarrow> ('l, 'q) appender \<times> uint64 \<times> string option" where
  "Append env now ref l t v a =
     (let endTime = now - Duration_Seconds_int64 (ttl a) in
      if t <s endTime then (a, ref, None)
      else
        (let a1 = a\<lparr>a_l := AddMetric env (a_l a) l t v\<rparr> in
         if estimatedSize env (a_l a1) > 16 * 1024 * 1024
         then (let a2 = commit env a1 in (a2\<lparr>a_l := Reset env (a_l a2)\<rparr>, ref, None))
         else (a1, ref, None)))"

text \<open>
  The reading of "older than \<open>now - ttl\<close>" in one unit: \<open>now\<close> and the timestamp are
  milliseconds since the epoch and the TTL is converted from nanoseconds to
  milliseconds.
\<close>

definition older_than_ttl :: "int64 \<Rightarrow> int64 \<Rightarrow> int64 \<Rightarrow> bool" where
  "older_than_ttl now d t = (sint t < sint now - sint d sdiv 1000000)"

section \<open>Example inputs\<close>

text \<open>
  Blocks of the configuration used by the module-import tests:
  \<open>testImport.test "myModule" { input = ... }\<close>, the same block with another body, and a
  block with a different label.
\<close>

definition block_myModule :: BlockStmt where
  "block_myModule = BlockStmt [''testImport'', ''test''] ''myModule'' [Attribute ''input''] 30 80"

definition block_myModule_v2 :: BlockStmt where
  "block_myModule_v2 = BlockStmt [''testImport'', ''test''] ''myModule'' [] 30 32"

definition block_otherModule :: BlockStmt where
  "block_otherModule = BlockStmt [''testImport'', ''test''] ''otherModule'' [] 30 32"

definition globals_root :: ComponentGlobals where
  "globals_root = \<lparr>ControllerID = [], DataPath = ''/data''\<rparr>"

definition path_Join_simple :: "string \<Rightarrow> string \<Rightarrow> string" where
  "path_Join_simple a b = a @ ''/'' @ b"

definition node_myModule :: "(string \<times> int) list CustomComponentNode" where
  "node_myModule = NewCustomComponentNode path_Join_simple 0 [] globals_root block_myModule"












text \<open>
  Answers of the collaborators of \<open>evaluate\<close> in which the module component is built
  and the lookup of the custom component's configuration fails.
\<close>

definition responses_config_missing :: eval_responses where
  "responses_config_missing =
     \<lparr>decodeErr = None, buildRes = Inr (ModuleComponent ''testImport.test.myModule''),
      configErr = Some ''declareLabel test not found in imported node testImport'',
      loadErr = None\<rparr>"

text \<open>
  A stand-in for the \<open>vcs\<close> package: a repository handle is the repository URL and
  revision, updates succeed, and a file's content names the handle and the path.
\<close>

definition ex_vcs :: "(unit, string) vcs" where
  "ex_vcs = \<lparr>NewGitRepo = (\<lambda>path ro. (Some (Repository ro @ ''@'' @ Revision ro), None)),
             repo_Update = (\<lambda>r. (r, None)),
             repo_ReadFile = (\<lambda>r p. Inr (r @ '':'' @ p))\<rparr>"

definition args_repoA :: "unit Arguments" where
  "args_repoA = \<lparr>arg_Repository = ''https://example.org/a.git'', arg_Revision = ''HEAD'',
                 arg_Path = ''module.river'', arg_PullFrequency = 60 * Second,
                 arg_GitAuthConfig = ()\<rparr>"

definition args_repoB :: "unit Arguments" where
  "args_repoB = \<lparr>arg_Repository = ''https://example.org/b.git'', arg_Revision = ''HEAD'',
                 arg_Path = ''module.river'', arg_PullFrequency = 60 * Second,
                 arg_GitAuthConfig = ()\<rparr>"

definition git_fresh :: "(unit, string) ImportGit" where
  "git_fresh = NewImportGit ''/data/import.git.testImport'' ()"

definition git_after_A :: "(unit, string) ImportGit" where
  "git_after_A =
     \<lparr>opts_DataPath = ''/data/import.git.testImport'',
      repo = Some ''https://example.org/a.git@HEAD'',
      repoOpts = repoOptions_of args_repoA,
      args = args_repoA,
      lastContent = ''https://example.org/a.git@HEAD:module.river'',
      argsChanged = True,
      health = \<lparr>Health = HealthTypeHealthy, Message = ''module updated'', UpdateTime = 1\<rparr>\<rparr>"

text \<open>
  A stand-in for the store and the remote: entries in key order, bookmarks as a list,
  and a remote that answers from a script (and accepts once the script is used up).
\<close>

record ex_store =
  ex_bookmarks :: "(string \<times> uint64) list"
  ex_entries :: "(uint64 \<times> nat signal) list"

fun next_entry_key :: "uint64 \<Rightarrow> (uint64 \<times> nat signal) list \<Rightarrow> uint64" where
  "next_entry_key k [] = k"
| "next_entry_key k ((k', v) # es) = (if k < k' then k' else next_entry_key k es)"

fun scripted :: "(bool \<times> string option) list \<Rightarrow> nat \<Rightarrow> (bool \<times> string option) list \<times> bool \<times> string option" where
  "scripted [] v = ([], True, None)"
| "scripted (a # as) v = (as, a)"

definition ex_env :: "(ex_store, (bool \<times> string option) list, nat) writer_env" where
  "ex_env = \<lparr>GetBookmark = (\<lambda>s n. map_of (ex_bookmarks s) n),
             GetOldestKey = (\<lambda>s. case ex_entries s of [] \<Rightarrow> 0 | e # es \<Rightarrow> fst e),
             GetNextKey = (\<lambda>s k. next_entry_key k (ex_entries s)),
             GetSignal = (\<lambda>s k. map_of (ex_entries s) k),
             WriteBookmark = (\<lambda>s n k. (s\<lparr>ex_bookmarks := (n, k) # ex_bookmarks s\<rparr>, None)),
             to_Name = (\<lambda>r. ''remote''),
             to_Append = scripted,
             to_AppendMetadata = (\<lambda>r v. case scripted r v of (r1, ok, e) \<Rightarrow> (r1, ok)),
             to_AppendExemplars = scripted,
             to_AppendFloatHistograms = scripted,
             to_AppendHistograms = scripted\<rparr>"

definition ex_writer_name :: string where
  "ex_writer_name = ''metrics_write_to_remote_parent_q''"

definition store_fresh :: ex_store where
  "store_fresh = \<lparr>ex_bookmarks = [], ex_entries = [(7, Samples 70), (8, Samples 80)]\<rparr>"

definition writer_at7 :: "(bool \<times> string option) list \<Rightarrow> (ex_store, (bool \<times> string option) list) writer" where
  "writer_at7 script =
     \<lparr>parentId = ''q'', currentKey = 7, w_to = script, w_store = store_fresh,
      bookmarkKey = ex_writer_name\<rparr>"

definition lv_first :: loop_vars where
  "lv_first = \<lparr>newKey = True, success = True, err = None\<rparr>"

definition remote_timeout :: "(bool \<times> string option) list" where
  "remote_timeout = [(False, Some ''context deadline exceeded'')]"

definition remote_ok :: "(bool \<times> string option) list" where
  "remote_ok = [(True, None)]"



definition store_bookmark3_oldest7 :: ex_store where
  "store_bookmark3_oldest7 =
     \<lparr>ex_bookmarks = [(ex_writer_name, 3)],
      ex_entries = [(7, Samples 70), (8, Samples 80)]\<rparr>"

section \<open>Properties\<close>

subsection \<open>Auxiliary facts\<close>



lemma loop_body_advance:
  assumes look: "newKey lv \<or> \<not> success lv"
    and found: "GetSignal env (w_store w) (currentKey w) = Some val"
    and sub: "submit env (w_to w) (err lv) val = (r1, ok, e)"
    and adv: "ok \<or> \<not> recoverableError e"
    and wb: "WriteBookmark env (w_store w) (bookmarkKey w) (currentKey w) = (s1, werr)"
  shows "loop_body env (w, lv) =
      (w\<lparr>w_to := r1, w_store := s1, currentKey := GetNextKey env s1 (currentKey w)\<rparr>,
       \<lparr>newKey = (currentKey w \<noteq> GetNextKey env s1 (currentKey w)), success = ok, err = werr\<rparr>,
       [GetSignalCall (currentKey w)] @
       (if e \<noteq> None then [WriterLogError ''error sending samples''] else []) @
       [WriteBookmarkCall (bookmarkKey w) (currentKey w)] @
       (if werr \<noteq> None then [WriterLogError ''error writing bookmark''] else []) @
       [TimerWait (if ok \<and> currentKey w \<noteq> GetNextKey env s1 (currentKey w)
                   then 10 * Millisecond else 1 * Second)])"
proof -
  have c1: "(newKey lv \<or> \<not> success lv) = True" using look by simp
  have c2: "(ok \<or> \<not> recoverableError e) = True" using adv by simp
  show ?thesis
    unfolding loop_body_def
    by (simp only: fst_conv snd_conv c1 c2 found sub wb Let_def if_True option.case prod.case
          incrementKey_def)
       (simp add: c2)
qed

lemma loop_body_retry:
  assumes look: "newKey lv \<or> \<not> success lv"
    and found: "GetSignal env (w_store w) (currentKey w) = Some val"
    and sub: "submit env (w_to w) (err lv) val = (r1, ok, e)"
    and nok: "\<not> ok" and rec: "recoverableError e"
  shows "loop_body env (w, lv) =
     (w\<lparr>w_to := r1\<rparr>, lv\<lparr>success := False, err := e\<rparr>,
      [GetSignalCall (currentKey w)] @
      (if e \<noteq> None then [WriterLogError ''error sending samples''] else []) @
      [TimerWait (1 * Second)])"
proof -
  have c1: "(newKey lv \<or> \<not> success lv) = True" using look by simp
  have c2: "(ok \<or> \<not> recoverableError e) = False" using nok rec by simp
  have c3: "ok = False" using nok by simp
  show ?thesis
    unfolding loop_body_def
    by (simp only: fst_conv snd_conv c1 c2 found sub Let_def if_True if_False option.case prod.case)
       (simp add: c3 rec)
qed

lemma loop_body_first_event:
  assumes look: "newKey lv \<or> \<not> success lv"
  shows "hd (snd (snd (loop_body env (w, lv)))) = GetSignalCall (currentKey w)"
proof -
  have c1: "(newKey lv \<or> \<not> success lv) = True" using look by simp
  show ?thesis
    unfolding loop_body_def
    by (simp only: fst_conv snd_conv c1 Let_def if_True)
       (simp split: option.splits prod.splits)
qed

lemma pollFile_DataPath:
  "snd (pollFile v a im) = Returns (im', e) \<Longrightarrow> opts_DataPath im' = opts_DataPath im"
  by (auto simp: pollFile_def split: option.splits prod.splits sum.splits if_splits)

lemma pollFile_clone_paths: "clone_paths (fst (pollFile v a im)) = []"
  by (auto simp: pollFile_def split: option.splits prod.splits sum.splits if_splits)

lemma updateHealth_DataPath [simp]: "opts_DataPath (updateHealth e now im) = opts_DataPath im"
  by (simp add: updateHealth_def split: option.splits)

lemma clone_paths_append [simp]: "clone_paths (xs @ ys) = clone_paths xs @ clone_paths ys"
  by (induction xs rule: clone_paths.induct) simp_all

lemma Update_poll_DataPath:
  assumes "snd (Update_poll v now a im) = Returns (im', e)"
  shows "opts_DataPath im' = opts_DataPath im"
proof (cases "pollFile v a im")
  case (Pair ev res)
  show ?thesis
  proof (cases res)
    case (Panic m)
    with Pair assms show ?thesis by (simp add: Update_poll_def)
  next
    case (Returns p)
    obtain im1 e1 where p: "p = (im1, e1)" by (cases p)
    have dp: "opts_DataPath im1 = opts_DataPath im"
      using pollFile_DataPath [of v a im im1 e1] Pair Returns p by simp
    show ?thesis
    proof (cases e1)
      case None
      with Pair Returns p assms dp show ?thesis by (auto simp: Update_poll_def)
    next
      case (Some ge)
      with Pair Returns p assms dp show ?thesis
        by (cases ge) (auto simp: Update_poll_def)
    qed
  qed
qed

lemma Update_poll_clone_paths: "clone_paths (fst (Update_poll v now a im)) = []"
proof (cases "pollFile v a im")
  case (Pair ev res)
  have ev: "clone_paths ev = []" using pollFile_clone_paths [of v a im] Pair by simp
  show ?thesis
  proof (cases res)
    case (Panic m)
    with Pair ev show ?thesis by (simp add: Update_poll_def)
  next
    case (Returns p)
    obtain im1 e1 where p: "p = (im1, e1)" by (cases p)
    show ?thesis
    proof (cases e1)
      case None
      with Pair Returns p ev show ?thesis by (simp add: Update_poll_def)
    next
      case (Some ge)
      with Pair Returns p ev show ?thesis by (cases ge) (simp_all add: Update_poll_def)
    qed
  qed
qed

lemma Update_clone_events:
  assumes "repo im = None \<or> repoOptions_of a \<noteq> repoOpts im"
  shows "\<exists>ev. fst (Update v fj now a im) = NewGitRepoCall (repoPath fj im) (repoOptions_of a) # ev \<and>
              clone_paths ev = []"
proof (cases "NewGitRepo v (repoPath fj im) (repoOptions_of a)")
  case (Pair r ge)
  show ?thesis
  proof (cases ge)
    case None
    with Pair assms show ?thesis
      using Update_poll_clone_paths [of v now a "im\<lparr>repo := r, repoOpts := repoOptions_of a\<rparr>"]
      by (auto simp: Update_def Let_def split: prod.splits)
  next
    case (Some g)
    show ?thesis
    proof (cases g)
      case (UpdateFailedError m)
      with Some Pair assms show ?thesis
        using Update_poll_clone_paths [of v now a
                "(updateHealth (Some (UpdateFailedError m)) now im)\<lparr>repo := r, repoOpts := repoOptions_of a\<rparr>"]
        by (auto simp: Update_def Let_def split: prod.splits)
    next
      case (OtherError m)
      with Some Pair assms show ?thesis by (auto simp: Update_def Let_def)
    qed
  qed
qed

lemma Update_no_clone:
  assumes "repo im \<noteq> None" and "repoOptions_of a = repoOpts im"
  shows "clone_paths (fst (Update v fj now a im)) = []"
  using assms Update_poll_clone_paths [of v now a im] by (auto simp: Update_def Let_def)

lemma Update_DataPath:
  assumes "snd (Update v fj now a im) = Returns (im', e)"
  shows "opts_DataPath im' = opts_DataPath im"
proof (cases "repo im = None \<or> repoOptions_of a \<noteq> repoOpts im")
  case False
  with assms show ?thesis using Update_poll_DataPath [of v now a im im' e]
    by (simp add: Update_def Let_def)
next
  case True
  show ?thesis
  proof (cases "NewGitRepo v (repoPath fj im) (repoOptions_of a)")
    case (Pair r ge)
    show ?thesis
    proof (cases ge)
      case None
      with Pair True assms show ?thesis
        using Update_poll_DataPath [of v now a "im\<lparr>repo := r, repoOpts := repoOptions_of a\<rparr>" im' e]
        by (auto simp: Update_def Let_def split: prod.splits)
    next
      case (Some g)
      show ?thesis
      proof (cases g)
        case (UpdateFailedError m)
        with Some Pair True assms show ?thesis
          using Update_poll_DataPath [of v now a
                  "(updateHealth (Some (UpdateFailedError m)) now im)\<lparr>repo := r, repoOpts := repoOptions_of a\<rparr>" im' e]
          by (auto simp: Update_def Let_def split: prod.splits)
      next
        case (OtherError m)
        with Some Pair True assms show ?thesis by (auto simp: Update_def Let_def)
      qed
    qed
  qed
qed

text \<open>The seconds of one hour, through the double arithmetic.\<close>

lemma bit_length_3600: "bit_length 3600 = 12" by (simp add: bit_length.simps)
lemma bit_length_1: "bit_length (Suc 0) = 1" by (simp add: bit_length.simps)

lemma float64_of_ratio_0: "float64_of_ratio 0 d = (0, 0)" by (simp add: float64_of_ratio_def)

lemma float64_of_ratio_3600: "float64_of_ratio 3600 1 = (7916483719987200, - 41)"
  by (simp add: float64_of_ratio_def bit_length_3600 bit_length_1 Let_def)

lemma Duration_Seconds_hour: "Duration_Seconds 3600000000000 = (7916483719987200, - 41)"
  by (simp add: Duration_Seconds_def signed_divide_int_def signed_modulo_int_def float64_of_ratio_0 float64_of_ratio_3600 Let_def)

lemma Duration_Seconds_int64_hour: "Duration_Seconds_int64 3600000000000 = 3600"
  by (simp add: Duration_Seconds_int64_def Duration_Seconds_hour int64_of_float64_def Let_def)




lemma processDeclareBlock_frame:
  assumes "processDeclareBlock b content cn = Returns (cn1, ev1)"
  shows "cn1 = cn\<lparr>importedDeclares := importedDeclares cn1\<rparr>"
  using assms
  by (auto simp: processDeclareBlock_def split: if_splits option.splits)

lemma processImportBlock_frame:
  assumes "processImportBlock b n cn = (cn1, ev1)"
  shows "cn1 = cn\<lparr>importConfigNodesChildren := importConfigNodesChildren cn1\<rparr>"
  using assms
  by (auto simp: processImportBlock_def Let_def split: if_splits)








subsection \<open>Claims\<close>

text \<open>
  C1. \<open>Append\<close> subtracts the TTL in seconds from the current time in milliseconds. With
  a TTL of one hour, a sample that is ten seconds old is not older than \<open>now - ttl\<close>, yet
  it is dropped: \<open>Append\<close> returns the given reference and no error and leaves the buffer
  and the queue as they were.
\<close>

theorem Append_rejects_sample_within_ttl:
  "\<not> older_than_ttl 1700000000000 3600000000000 1699999990000 \<and>
   Append env 1700000000000 ref l 1699999990000 v (a\<lparr>ttl := 3600000000000\<rparr>) =
     (a\<lparr>ttl := 3600000000000\<rparr>, ref, None)"
  by (simp add: Append_def older_than_ttl_def Duration_Seconds_int64_hour signed_divide_int_def
        word_sless_alt Let_def)

text \<open>
  C2, as stated, fails: with a bookmark at key 3 and the oldest persisted key 7, the
  writer starts at 3, not at \<open>max 3 7\<close>.
\<close>

theorem newWriter_starts_at_max_counterexample:
  "GetBookmark ex_env store_bookmark3_oldest7 ex_writer_name = Some 3 \<and>
   GetOldestKey ex_env store_bookmark3_oldest7 = 7 \<and>
   bookmarkKey (newWriter ex_env ''q'' [] store_bookmark3_oldest7) = ex_writer_name \<and>
   GetKey (newWriter ex_env ''q'' [] store_bookmark3_oldest7) = 3 \<and>
   GetKey (newWriter ex_env ''q'' [] store_bookmark3_oldest7) \<noteq> max 3 7"
  by (simp add: newWriter_def GetKey_def ex_env_def store_bookmark3_oldest7_def
        ex_writer_name_def Let_def)

text \<open>
  C2, amended. A writer constructed over a store starts at the bookmark's key when a
  bookmark exists for the writer's name, whatever the oldest persisted key is, and at the
  oldest persisted key when no bookmark exists; in both cases a key of 0 is replaced by
  1. The writer's name is \<open>metrics_write_to_<remote name>_parent_<parent>\<close>.
\<close>

theorem newWriter_starts_at_bookmark_else_oldest:
  "bookmarkKey (newWriter env parent t st) =
     ''metrics_write_to_'' @ to_Name env t @ ''_parent_'' @ parent \<and>
   (GetBookmark env st (''metrics_write_to_'' @ to_Name env t @ ''_parent_'' @ parent) = Some k \<longrightarrow>
      GetKey (newWriter env parent t st) = (if k = 0 then 1 else k)) \<and>
   (GetBookmark env st (''metrics_write_to_'' @ to_Name env t @ ''_parent_'' @ parent) = None \<longrightarrow>
      GetKey (newWriter env parent t st) =
        (if GetOldestKey env st = 0 then 1 else GetOldestKey env st))"
  by (auto simp: newWriter_def GetKey_def Let_def split: option.splits)

theorem newWriter_starts_at_bookmark_else_oldest_witness:
  "GetKey (newWriter ex_env ''q'' [] store_bookmark3_oldest7) = 3 \<and>
   GetKey (newWriter ex_env ''q'' [] store_fresh) = 7"
  using newWriter_starts_at_bookmark_else_oldest [of ex_env "''q''" "[]" store_bookmark3_oldest7 3]
        newWriter_starts_at_bookmark_else_oldest [of ex_env "''q''" "[]" store_fresh]
  by (simp add: ex_env_def store_bookmark3_oldest7_def store_fresh_def ex_writer_name_def)

text \<open>
  C3. In an iteration of the writer loop that finds an entry at the current key: when the
  submission succeeds or its error is classified unrecoverable, \<open>WriteBookmark\<close> is called
  with the writer's name and the current key and the current key becomes the store's next
  key; when the submission fails with a recoverable outcome, \<open>WriteBookmark\<close> is not called,
  store and current key stay as they are, the iteration ends on a timer of one second, and
  the next iteration starts by looking the same key up again.
\<close>

theorem writer_loop_bookmark_advance_or_retry:
  assumes look: "newKey lv \<or> \<not> success lv"
    and found: "GetSignal env (w_store w) (currentKey w) = Some val"
    and sub: "submit env (w_to w) (err lv) val = (r1, ok, e)"
    and wb: "WriteBookmark env (w_store w) (bookmarkKey w) (currentKey w) = (s1, werr)"
    and res: "loop_body env (w, lv) = (w', lv', ev)"
  shows "(ok \<or> \<not> recoverableError e \<longrightarrow>
            WriteBookmarkCall (bookmarkKey w) (currentKey w) \<in> set ev \<and>
            w_store w' = s1 \<and>
            currentKey w' = GetNextKey env s1 (currentKey w)) \<and>
         (\<not> ok \<and> recoverableError e \<longrightarrow>
            (\<forall>n k. WriteBookmarkCall n k \<notin> set ev) \<and>
            w_store w' = w_store w \<and>
            currentKey w' = currentKey w \<and>
            last ev = TimerWait (1 * Second) \<and>
            hd (snd (snd (loop_body env (w', lv')))) = GetSignalCall (currentKey w))"
proof (intro conjI impI)
  assume adv: "ok \<or> \<not> recoverableError e"
  note eq = loop_body_advance [OF look found sub adv wb]
  from eq res show "WriteBookmarkCall (bookmarkKey w) (currentKey w) \<in> set ev" by auto
  from eq res show "w_store w' = s1" by auto
  from eq res show "currentKey w' = GetNextKey env s1 (currentKey w)" by auto
next
  assume r: "\<not> ok \<and> recoverableError e"
  then have nok: "\<not> ok" and rec: "recoverableError e" by simp_all
  note eq = loop_body_retry [OF look found sub nok rec]
  from eq res have w': "w' = w\<lparr>w_to := r1\<rparr>" and lv': "lv' = lv\<lparr>success := False, err := e\<rparr>"
    and ev: "ev = [GetSignalCall (currentKey w)] @
      (if e \<noteq> None then [WriterLogError ''error sending samples''] else []) @
      [TimerWait (1 * Second)]" by simp_all
  from ev show "\<forall>n k. WriteBookmarkCall n k \<notin> set ev" by auto
  from w' show "w_store w' = w_store w" by simp
  from w' show "currentKey w' = currentKey w" by simp
  from ev show "last ev = TimerWait (1 * Second)" by simp
  have "newKey lv' \<or> \<not> success lv'" using lv' by simp
  from loop_body_first_event [OF this, of env w']
  show "hd (snd (snd (loop_body env (w', lv')))) = GetSignalCall (currentKey w)"
    using w' by simp
qed

theorem writer_loop_bookmark_advance_or_retry_witness:
  "loop_body ex_env (writer_at7 remote_timeout, lv_first) =
     ((writer_at7 [])\<lparr>currentKey := 7\<rparr>,
      \<lparr>newKey = True, success = False, err = Some ''context deadline exceeded''\<rparr>,
      [GetSignalCall 7, WriterLogError ''error sending samples'', TimerWait 1000000000]) \<and>
   hd (snd (snd (loop_body ex_env
         ((writer_at7 [])\<lparr>currentKey := 7\<rparr>,
          \<lparr>newKey = True, success = False, err = Some ''context deadline exceeded''\<rparr>)))) =
     GetSignalCall 7 \<and>
   loop_body ex_env (writer_at7 remote_ok, lv_first) =
     ((writer_at7 [])\<lparr>currentKey := 8,
         w_store := store_fresh\<lparr>ex_bookmarks := [(ex_writer_name, 7)]\<rparr>\<rparr>,
      \<lparr>newKey = True, success = True, err = None\<rparr>,
      [GetSignalCall 7, WriteBookmarkCall ex_writer_name 7, TimerWait 10000000])"
proof -
  have look: "newKey lv_first \<or> \<not> success lv_first" by (simp add: lv_first_def)
  have found: "GetSignal ex_env (w_store (writer_at7 s)) (currentKey (writer_at7 s)) = Some (Samples 70)" for s
    by (simp add: ex_env_def writer_at7_def store_fresh_def)
  have sub1: "submit ex_env (w_to (writer_at7 remote_timeout)) (err lv_first) (Samples 70) =
      ([], False, Some ''context deadline exceeded'')"
    by (simp add: ex_env_def writer_at7_def remote_timeout_def)
  have sub2: "submit ex_env (w_to (writer_at7 remote_ok)) (err lv_first) (Samples 70) = ([], True, None)"
    by (simp add: ex_env_def writer_at7_def remote_ok_def)
  have wb: "WriteBookmark ex_env (w_store (writer_at7 s)) (bookmarkKey (writer_at7 s))
              (currentKey (writer_at7 s)) =
            (store_fresh\<lparr>ex_bookmarks := [(ex_writer_name, 7)]\<rparr>, None)" for s
    by (simp add: ex_env_def writer_at7_def store_fresh_def)
  have rec: "recoverableError (Some ''context deadline exceeded'')"
    by (simp add: recoverableError_def)
  have r1: "loop_body ex_env (writer_at7 remote_timeout, lv_first) =
     ((writer_at7 [])\<lparr>currentKey := 7\<rparr>,
      \<lparr>newKey = True, success = False, err = Some ''context deadline exceeded''\<rparr>,
      [GetSignalCall 7, WriterLogError ''error sending samples'', TimerWait 1000000000])"
    by (simp add: loop_body_def ex_env_def writer_at7_def lv_first_def remote_timeout_def
          store_fresh_def recoverableError_def Second_def Let_def)
  have r2: "loop_body ex_env (writer_at7 remote_ok, lv_first) =
     ((writer_at7 [])\<lparr>currentKey := 8,
         w_store := store_fresh\<lparr>ex_bookmarks := [(ex_writer_name, 7)]\<rparr>\<rparr>,
      \<lparr>newKey = True, success = True, err = None\<rparr>,
      [GetSignalCall 7, WriteBookmarkCall ex_writer_name 7, TimerWait 10000000])"
    by (simp add: loop_body_def ex_env_def writer_at7_def lv_first_def remote_ok_def
          store_fresh_def recoverableError_def Second_def Millisecond_def Let_def incrementKey_def)
  from writer_loop_bookmark_advance_or_retry [OF look found sub1 wb r1] rec
  have "hd (snd (snd (loop_body ex_env
         ((writer_at7 [])\<lparr>currentKey := 7\<rparr>,
          \<lparr>newKey = True, success = False, err = Some ''context deadline exceeded''\<rparr>)))) =
     GetSignalCall 7"
    by (simp add: writer_at7_def)
  with r1 r2 show ?thesis by simp
qed




text \<open>
  C5. \<open>Run\<close> does not fail fast on every node whose \<open>Evaluate\<close> has never succeeded. An
  import config node gets its source in the constructor, so \<open>Run\<close> passes the guard on a
  node that was never evaluated. A custom component node stores the managed component
  before the configuration lookup, so after an \<open>Evaluate\<close> that fails in the lookup
  \<open>Run\<close> passes the guard as well.
\<close>

theorem Run_proceeds_without_successful_Evaluate:
  "icn_Run now (NewImportConfigNode path_Join t0 b globals st) \<noteq> FailedFast ErrUnevaluated \<and>
   snd (Evaluate responses_config_missing 1 node_myModule) \<noteq> None \<and>
   Run 2 (fst (Evaluate responses_config_missing 1 node_myModule)) \<noteq> FailedFast ErrUnevaluated"
  by (simp add: icn_Run_def NewImportConfigNode_def NewImportSource_def Let_def
        Evaluate_def evaluate_def responses_config_missing_def node_myModule_def
        NewCustomComponentNode_def Run_def setEvalHealth_def)

text \<open>
  C6. \<open>setExports\<close> with a value that \<open>DeepEqual\<close> finds equal to the stored exports
  leaves the node (exports and last update time included) as it is and makes no call on
  the controller; with a value that \<open>DeepEqual\<close> finds different it stores the value,
  sets the last update time and calls \<open>OnNodeWithDependantsUpdate\<close> for the node.
\<close>

theorem setExports_gate:
  "(DeepEqual (Exports cn) e \<longrightarrow>
      setExports DeepEqual now e cn = (cn, [])) \<and>
   (\<not> DeepEqual (Exports cn) e \<longrightarrow>
      setExports DeepEqual now e cn =
        (cn\<lparr>exports := e, lastUpdateTime := now\<rparr>, [OnNodeWithDependantsUpdate (nodeID cn)]))"
  by (simp add: setExports_def Exports_def Let_def)

theorem setExports_gate_witness:
  "setExports (=) 5 [(''output'', 10)] (node_myModule\<lparr>exports := [(''output'', 10)]\<rparr>) =
     (node_myModule\<lparr>exports := [(''output'', 10)]\<rparr>, []) \<and>
   setExports (=) 5 [(''output'', -10)] (node_myModule\<lparr>exports := [(''output'', 10)]\<rparr>) =
     (node_myModule\<lparr>exports := [(''output'', -10)], lastUpdateTime := 5\<rparr>,
      [OnNodeWithDependantsUpdate ''testImport.test.myModule''])"
  using setExports_gate [of "(=)" "node_myModule\<lparr>exports := [(''output'', 10)]\<rparr>" "[(''output'', 10)]" 5]
        setExports_gate [of "(=)" "node_myModule\<lparr>exports := [(''output'', 10)]\<rparr>" "[(''output'', -10)]" 5]
  by (simp add: Exports_def node_myModule_def NewCustomComponentNode_def Let_def
        block_myModule_def BlockComponentID_def ComponentID_String_def)

text \<open>
  C7, as stated, fails: after an update for repository \<open>a.git\<close>, an update for repository
  \<open>b.git\<close> calls \<open>NewGitRepo\<close> on the very directory the first update used.
\<close>

theorem Update_reclones_new_directory_counterexample:
  "fst (Update ex_vcs path_Join_simple 1 args_repoA git_fresh) =
     [NewGitRepoCall ''/data/import.git.testImport/repo'' (repoOptions_of args_repoA),
      onContentChange ''https://example.org/a.git@HEAD:module.river''] \<and>
   snd (Update ex_vcs path_Join_simple 1 args_repoA git_fresh) = Returns (git_after_A, None) \<and>
   repoOptions_of args_repoB \<noteq> repoOpts git_after_A \<and>
   fst (Update ex_vcs path_Join_simple 2 args_repoB git_after_A) =
     [NewGitRepoCall ''/data/import.git.testImport/repo'' (repoOptions_of args_repoB),
      onContentChange ''https://example.org/b.git@HEAD:module.river'']"
  by (simp add: Update_def Update_poll_def pollFile_def ex_vcs_def path_Join_simple_def
        args_repoA_def args_repoB_def git_fresh_def git_after_A_def NewImportGit_def
        repoOptions_of_def repoPath_def updateHealth_def Let_def)

text \<open>
  C7, amended. Whenever \<open>Update\<close> is applied with arguments whose repository, revision
  or auth configuration differ from the stored repository options (or no repository
  exists yet), \<open>NewGitRepo\<close> is called once, first, with the new options on the
  directory \<open><data path>/repo\<close>; with unchanged options it is not called; and \<open>Update\<close>
  never changes that directory, so every later call uses the same one.
\<close>

theorem Update_reclones_into_same_directory:
  "(repo im = None \<or> repoOptions_of a \<noteq> repoOpts im \<longrightarrow>
      (\<exists>ev. fst (Update v fj now a im) =
               NewGitRepoCall (repoPath fj im) (repoOptions_of a) # ev \<and> clone_paths ev = [])) \<and>
   (repo im \<noteq> None \<and> repoOptions_of a = repoOpts im \<longrightarrow>
      clone_paths (fst (Update v fj now a im)) = []) \<and>
   (\<forall>im' e. snd (Update v fj now a im) = Returns (im', e) \<longrightarrow> repoPath fj im' = repoPath fj im)"
proof (intro conjI impI allI)
  assume "repo im = None \<or> repoOptions_of a \<noteq> repoOpts im"
  then show "\<exists>ev. fst (Update v fj now a im) =
               NewGitRepoCall (repoPath fj im) (repoOptions_of a) # ev \<and> clone_paths ev = []"
    by (rule Update_clone_events)
next
  assume "repo im \<noteq> None \<and> repoOptions_of a = repoOpts im"
  then show "clone_paths (fst (Update v fj now a im)) = []"
    using Update_no_clone [of im a v fj now] by blast
next
  fix im' e
  assume "snd (Update v fj now a im) = Returns (im', e)"
  then have "opts_DataPath im' = opts_DataPath im" by (rule Update_DataPath)
  then show "repoPath fj im' = repoPath fj im" by (simp only: repoPath_def)
qed

theorem Update_reclones_into_same_directory_witness:
  "repoOptions_of args_repoB \<noteq> repoOpts git_after_A \<and>
   clone_paths (fst (Update ex_vcs path_Join_simple 2 args_repoB git_after_A)) =
     [''/data/import.git.testImport/repo''] \<and>
   clone_paths (fst (Update ex_vcs path_Join_simple 2 args_repoA git_after_A)) = []"
proof -
  have ne: "repoOptions_of args_repoB \<noteq> repoOpts git_after_A"
    by (simp add: git_after_A_def args_repoA_def args_repoB_def repoOptions_of_def)
  have eq: "repo git_after_A \<noteq> None \<and> repoOptions_of args_repoA = repoOpts git_after_A"
    by (simp add: git_after_A_def)
  have path: "repoPath path_Join_simple git_after_A = ''/data/import.git.testImport/repo''"
    by (simp add: repoPath_def path_Join_simple_def git_after_A_def)
  from ne Update_reclones_into_same_directory [of git_after_A args_repoB ex_vcs path_Join_simple 2]
  obtain ev where "fst (Update ex_vcs path_Join_simple 2 args_repoB git_after_A) =
      NewGitRepoCall (repoPath path_Join_simple git_after_A) (repoOptions_of args_repoB) # ev"
    and "clone_paths ev = []" by blast
  then have b: "clone_paths (fst (Update ex_vcs path_Join_simple 2 args_repoB git_after_A)) =
     [''/data/import.git.testImport/repo'']" using path by simp
  from eq Update_reclones_into_same_directory [of git_after_A args_repoA ex_vcs path_Join_simple 2]
  have a: "clone_paths (fst (Update ex_vcs path_Join_simple 2 args_repoA git_after_A)) = []"
    by blast
  from ne a b show ?thesis by blast
qed




text \<open>
  C9. \<open>Exports\<close> of an import config node is nil in every state of the node.
\<close>

theorem icn_Exports_nil: "icn_Exports cn = None"
  by (simp add: icn_Exports_def)

text \<open>
  C10. \<open>CustomComponentNode.UpdateBlock\<close> panics exactly when the given block's component
  ID differs from the node's component ID. When the IDs are equal the call returns, and
  the node it leaves differs from the old one in the stored block and the evaluator only:
  the block is the given one and the evaluator is a new one over the block's body.
\<close>

theorem UpdateBlock_panics_iff_id_differs:
  "((\<exists>msg. UpdateBlock cn b = Panic msg) \<longleftrightarrow> BlockComponentID b \<noteq> id cn) \<and>
   (BlockComponentID b = id cn \<longrightarrow>
      UpdateBlock cn b = Returns (cn\<lparr>block := b, eval := vm_New (Body b)\<rparr>) \<and>
      (\<forall>cn'. UpdateBlock cn b = Returns cn' \<longrightarrow>
         block cn' = b \<and> eval cn' = vm_New (Body b) \<and>
         cn'\<lparr>block := block cn, eval := eval cn\<rparr> = cn))"
  by (auto simp: UpdateBlock_def ComponentID_Equals_def)

theorem UpdateBlock_panics_iff_id_differs_witness:
  "BlockComponentID block_myModule_v2 = id node_myModule \<and>
   UpdateBlock node_myModule block_myModule_v2 =
     Returns (node_myModule\<lparr>block := block_myModule_v2, eval := vm_New []\<rparr>) \<and>
   BlockComponentID block_otherModule \<noteq> id node_myModule \<and>
   (\<exists>msg. UpdateBlock node_myModule block_otherModule = Panic msg)"
  using UpdateBlock_panics_iff_id_differs [of node_myModule block_myModule_v2]
        UpdateBlock_panics_iff_id_differs [of node_myModule block_otherModule]
  by (simp add: node_myModule_def NewCustomComponentNode_def block_myModule_def
        block_myModule_v2_def block_otherModule_def BlockComponentID_def Let_def)

end
